theory Spec2Isabelle
  imports Main "HOL-Library.AList"
begin

section \<open>Python values, errors and logging\<close>

text \<open>
  The values that travel through the settings store and the storage facade: \<open>None\<close>,
  booleans, integers and strings. Python's \<open>bool\<close> is a subclass of \<open>int\<close>, which
  \<open>isinstance\<close> and \<open>divmod\<close> both see.
\<close>

datatype pyval = PNone | PBool bool | PInt int | PStr string

datatype pytype = NoneType | BoolT | IntT | StrT

fun type_of :: "pyval \<Rightarrow> pytype" where
  "type_of PNone = NoneType"
| "type_of (PBool _) = BoolT"
| "type_of (PInt _) = IntT"
| "type_of (PStr _) = StrT"

text \<open>\<open>isinstance(value, t)\<close>: the value's type is \<open>t\<close> or a subclass of it.\<close>

definition isinstance :: "pyval \<Rightarrow> pytype \<Rightarrow> bool" where
  "isinstance v t = (type_of v = t \<or> (type_of v = BoolT \<and> t = IntT))"

text \<open>Truth value of an object, as \<open>not x\<close>, \<open>x or y\<close> and \<open>assert x\<close> test it.\<close>

fun truthy :: "pyval \<Rightarrow> bool" where
  "truthy PNone = False"
| "truthy (PBool b) = b"
| "truthy (PInt n) = (n \<noteq> 0)"
| "truthy (PStr s) = (s \<noteq> [])"

text \<open>\<open>x or y\<close>\<close>

definition py_or :: "pyval \<Rightarrow> pyval \<Rightarrow> pyval" where
  "py_or x y = (if truthy x then x else y)"

text \<open>The exceptions that the modelled code raises or lets through.\<close>

datatype error =
    AssertionError string
  | FactError string
  | TypeError
  | ValueError
  | OtherError string

datatype level = Debug | Info | Warning | Error

text \<open>A log record: the level and the message template (arguments are not formatted).\<close>

type_synonym log_entry = "level \<times> string"

section \<open>The configuration store (configuration_macos.py)\<close>

text \<open>
  The file at \<open>_plist_path\<close>: absent, present but failing to open or parse, or a
  property list holding a dictionary.
\<close>

datatype plist_file = Missing | Unreadable | Plist "string \<rightharpoonup> pyval"

text \<open>
  What happens when \<open>_save_settings\<close> writes the file: \<open>open(path, 'wb')\<close> raises
  (the file is untouched), \<open>open\<close> succeeds but \<open>plistlib.dump\<close> raises (the file was
  truncated by \<open>open\<close> and holds no complete property list), or both succeed.
\<close>

datatype io = WriteOk | OpenFails | DumpFails

text \<open>
  The closure \<open>on_changed\<close> that \<open>bind\<close> connects to the \<open>changed\<close> signal; it
  captures \<open>key\<close>, \<open>obj\<close> and \<open>prop\<close>.
\<close>

type_synonym obj_ref = nat

datatype handler = OnChanged string obj_ref string

text \<open>
  The store object with the part of the world it acts on: the settings dictionary, the
  connected handlers in connection order, the settings file, the properties of the objects
  that can be bound, the \<open>changed\<close> emissions so far and the log.
\<close>

record conf =
  settings :: "string \<rightharpoonup> pyval"
  handlers :: "handler list"
  plist :: plist_file
  props :: "obj_ref \<times> string \<rightharpoonup> pyval"
  emitted :: "(string \<times> pyval) list"
  logged :: "log_entry list"

definition log_msg :: "level \<Rightarrow> string \<Rightarrow> conf \<Rightarrow> conf" where
  "log_msg l m s = s\<lparr>logged := logged s @ [(l, m)]\<rparr>"

text \<open>\<open>_defaults\<close>, in the order of the dictionary literal.\<close>

definition defaults :: "(string \<times> pyval) list" where
  "defaults = [(''day-start-minutes'', PInt 330), (''last-report-folder'', PStr '''')]"

text \<open>
  The merge loop of \<open>_load_settings\<close>:
  \<open>for key, default_value in self._defaults.items(): if key not in settings: ...\<close>
\<close>

fun merge_defaults :: "(string \<times> pyval) list \<Rightarrow> (string \<rightharpoonup> pyval) \<Rightarrow> (string \<rightharpoonup> pyval)" where
  "merge_defaults [] st = st"
| "merge_defaults ((key, default_value) # ds) st =
     merge_defaults ds (if st key = None then st(key \<mapsto> default_value) else st)"

text \<open>\<open>_load_settings\<close>: the dictionary and the log records written on the way.\<close>

fun load_settings :: "plist_file \<Rightarrow> (string \<rightharpoonup> pyval) \<times> log_entry list" where
  "load_settings (Plist st) =
     (merge_defaults defaults st, [(Debug, ''Loaded settings from plist: {}'')])"
| "load_settings Unreadable =
     (map_of defaults, [(Warning, ''Failed to load plist, using defaults: {}'')])"
| "load_settings Missing =
     (map_of defaults, [(Info, ''No existing plist found, creating with defaults'')])"

text \<open>
  \<open>__init__\<close>. \<open>new_conf\<close> is the object once the constructor has run to its
  end: the settings loaded, no handler connected yet. \<open>mkdir_ok\<close> says whether
  creating the preferences directory succeeds; when it does not, \<open>mkdir\<close>'s exception
  leaves the constructor before anything is loaded.
\<close>

definition new_conf :: "plist_file \<Rightarrow> (obj_ref \<times> string \<rightharpoonup> pyval) \<Rightarrow> conf" where
  "new_conf f ps =
     (let (st, l) = load_settings f
      in \<lparr>settings = st, handlers = [], plist = f, props = ps, emitted = [],
            logged = l @ [(Info, ''macOS configuration loaded from: {}'')]\<rparr>)"

definition init_conf ::
  "bool \<Rightarrow> plist_file \<Rightarrow> (obj_ref \<times> string \<rightharpoonup> pyval) \<Rightarrow> error + conf" where
  "init_conf mkdir_ok f ps =
     (if \<not> mkdir_ok then Inl (OtherError ''mkdir'') else Inr (new_conf f ps))"

text \<open>\<open>_save_settings\<close>: every exception is caught and logged.\<close>

fun save_settings :: "io \<Rightarrow> conf \<Rightarrow> conf" where
  "save_settings WriteOk s =
     log_msg Debug ''Saved settings to plist: {}'' (s\<lparr>plist := Plist (settings s)\<rparr>)"
| "save_settings OpenFails s = log_msg Error ''Failed to save plist: {}'' s"
| "save_settings DumpFails s =
     log_msg Error ''Failed to save plist: {}'' (s\<lparr>plist := Unreadable\<rparr>)"

text \<open>\<open>dict.get(key)\<close>: \<open>None\<close> for a key that is not there.\<close>

definition dict_get :: "(string \<rightharpoonup> pyval) \<Rightarrow> string \<Rightarrow> pyval" where
  "dict_get d key = (case d key of None \<Rightarrow> PNone | Some v \<Rightarrow> v)"

text \<open>
  \<open>get(key, default=None)\<close>: the value returned and the store (the log may grow);
  \<open>dflt\<close> is the argument \<open>default\<close>.
\<close>

definition get :: "string \<Rightarrow> pyval \<Rightarrow> conf \<Rightarrow> pyval \<times> conf" where
  "get key dflt s =
     (let val = dict_get (settings s) key in
      if val = PNone then
        if dflt \<noteq> PNone then (dflt, s)
        else (dict_get (map_of defaults) key, log_msg Warning ''Unknown settings key: {}'' s)
      else (val, s))"

text \<open>One handler run on a \<open>changed(changed_key, new_value)\<close> emission.\<close>

fun on_changed ::
  "handler \<Rightarrow> string \<Rightarrow> pyval \<Rightarrow> (obj_ref \<times> string \<rightharpoonup> pyval) \<Rightarrow> (obj_ref \<times> string \<rightharpoonup> pyval)" where
  "on_changed (OnChanged key obj prop) changed_key new_value ps =
     (if changed_key = key then ps((obj, prop) \<mapsto> new_value) else ps)"

text \<open>\<open>self.emit('changed', key, value)\<close>: the handlers run in connection order.\<close>

definition emit_changed :: "string \<Rightarrow> pyval \<Rightarrow> conf \<Rightarrow> conf" where
  "emit_changed key val s =
     s\<lparr>props := foldl (\<lambda>ps h. on_changed h key val ps) (props s) (handlers s),
       emitted := emitted s @ [(key, val)]\<rparr>"

text \<open>
  \<open>set(key, value)\<close> (HOL has a \<open>set\<close> already). \<open>w\<close> is what the file system does
  with this call's write.
\<close>

definition set_conf :: "string \<Rightarrow> pyval \<Rightarrow> io \<Rightarrow> conf \<Rightarrow> bool \<times> conf" where
  "set_conf key val w s =
     (let s0 = log_msg Debug ''Setting {} -> {}'' s;
          s1 = (case map_of defaults key of
                  Some default_value \<Rightarrow>
                    if \<not> isinstance val (type_of default_value) \<and> default_value \<noteq> PStr ''''
                    then log_msg Warning ''Type mismatch for key {}: expected {}, got {}'' s0
                    else s0
                | None \<Rightarrow> s0);
          s2 = s1\<lparr>settings := (settings s1)(key \<mapsto> val)\<rparr>;
          s3 = save_settings w s2;
          s4 = emit_changed key val s3
      in (True, s4))"

text \<open>The condition under which \<open>set\<close> logs its type-mismatch warning.\<close>

definition type_mismatch :: "string \<Rightarrow> pyval \<Rightarrow> bool" where
  "type_mismatch key val =
     (case map_of defaults key of
        Some default_value \<Rightarrow> \<not> isinstance val (type_of default_value) \<and> default_value \<noteq> PStr ''''
      | None \<Rightarrow> False)"

text \<open>\<open>bind(key, obj, prop)\<close>\<close>

definition bind :: "string \<Rightarrow> obj_ref \<Rightarrow> string \<Rightarrow> conf \<Rightarrow> conf" where
  "bind key obj prop s =
     (let s0 = log_msg Debug ''Binding {} to {}.{}'' s;
          (val, s1) = get key PNone s0;
          s2 = s1\<lparr>props := (props s1)((obj, prop) \<mapsto> val)\<rparr>
      in s2\<lparr>handlers := handlers s2 @ [OnChanged key obj prop]\<rparr>)"

text \<open>A time of day: hour and minute.\<close>

datatype time = Time int int

text \<open>
  Modelled from the spec: \<open>hamster.lib.datetime.time\<close> is not among the source files.
  The spec calls the result of \<open>dayStart\<close> a time-of-day, built from \<open>(hours, minutes)\<close>;
  a time-of-day has an hour in 0..23 and a minute in 0..59, and the constructor rejects
  anything else with an out-of-range error.
\<close>

definition time_ctor :: "int \<Rightarrow> int \<Rightarrow> error + time" where
  "time_ctor hour minute =
     (if 0 \<le> hour \<and> hour \<le> 23 \<and> 0 \<le> minute \<and> minute \<le> 59 then Inr (Time hour minute)
      else Inl ValueError)"

text \<open>The integer that \<open>divmod\<close> sees in a value, if it is a number.\<close>

fun as_int :: "pyval \<Rightarrow> int option" where
  "as_int (PInt n) = Some n"
| "as_int (PBool b) = Some (if b then 1 else 0)"
| "as_int _ = None"

text \<open>
  The property \<open>day_start\<close>. \<open>divmod(x, 60)\<close> on Python integers is floor division
  and the remainder with the sign of the divisor, as \<open>div\<close> and \<open>mod\<close> on \<open>int\<close>;
  on a string or \<open>None\<close> it raises \<open>TypeError\<close>.
\<close>

definition day_start :: "conf \<Rightarrow> (error + time) \<times> conf" where
  "day_start s =
     (let (day_start_minutes, s1) = get ''day-start-minutes'' PNone s in
      case as_int day_start_minutes of
        None \<Rightarrow> (Inl TypeError, s1)
      | Some n \<Rightarrow> (let hours = n div 60; minutes = n mod 60 in (time_ctor hours minutes, s1)))"

text \<open>A call on the store, and a sequence of calls run one after the other.\<close>

datatype call = CallGet string pyval | CallSet string pyval io | CallBind string obj_ref string

fun run_call :: "conf \<Rightarrow> call \<Rightarrow> conf" where
  "run_call s (CallGet key dflt) = snd (get key dflt s)"
| "run_call s (CallSet key val w) = snd (set_conf key val w s)"
| "run_call s (CallBind key obj prop) = bind key obj prop s"

definition run_calls :: "call list \<Rightarrow> conf \<Rightarrow> conf" where
  "run_calls cs s = foldl run_call s cs"

section \<open>The storage facade (client_native.py)\<close>

text \<open>
  A point in time, as \<open>dt.datetime.now()\<close> returns it, counted in minutes. A datetime
  object is always true, so \<open>not fact.start_time\<close> holds exactly when the field is
  \<open>None\<close>.
\<close>

type_synonym datetime = int

text \<open>
  The fields of a \<open>Fact\<close>. \<open>activity\<close> is a string or \<open>None\<close>; \<open>assert fact.activity\<close>
  fails on \<open>None\<close> and on the empty string alike.
\<close>

record fact =
  activity :: pyval
  start_time :: "datetime option"
  end_time :: "datetime option"
  description :: pyval
  tags :: "string list"

text \<open>
  The facade object: the state of the record store \<open>self._db\<close> and the log. The record
  store itself is not part of the facade; each of its routines that the facade calls is an
  argument of the function that calls it. It receives the fact by value: what the store
  does to the caller's object is outside this module.
\<close>

record 'db storage =
  db :: 'db
  slog :: "log_entry list"

text \<open>
  \<open>check_fact(fact, default_day=None)\<close>. \<open>db_check_fact\<close> is the store's routine: it
  raises (\<open>Inl\<close>) or returns. The handler \<open>except FactError as e: raise e\<close> raises the
  caught exception again; any other exception is not caught.
\<close>

definition check_fact ::
  "(fact \<Rightarrow> int option \<Rightarrow> 'db \<Rightarrow> (error + unit) \<times> 'db) \<Rightarrow>
   fact \<Rightarrow> int option \<Rightarrow> 'db storage \<Rightarrow> (error + bool \<times> string) \<times> 'db storage" where
  "check_fact db_check_fact fct default_day st =
     (if start_time fct = None then (Inl (FactError ''Missing start time''), st)
      else case db_check_fact fct default_day (db st) of
             (Inl e, db') \<Rightarrow>
               (case e of FactError m \<Rightarrow> (Inl (FactError m), st\<lparr>db := db'\<rparr>)
                        | _ \<Rightarrow> (Inl e, st\<lparr>db := db'\<rparr>))
           | (Inr _, db') \<Rightarrow> (Inr (True, ''''), st\<lparr>db := db'\<rparr>))"

text \<open>
  \<open>add_fact(fact, temporary_activity=False)\<close>, with assertions enabled (the interpreter's
  default). The result is the value returned or the exception raised, the caller's fact
  object as the call leaves it, and the facade. \<open>now\<close> is what \<open>dt.datetime.now()\<close>
  returns during the call; \<open>db_add_fact\<close> is the store's routine; \<open>fct\<close> is the
  argument \<open>fact\<close>.
\<close>

definition add_fact ::
  "(fact \<Rightarrow> 'db \<Rightarrow> (error + 'id) \<times> 'db) \<Rightarrow> datetime \<Rightarrow>
   fact \<Rightarrow> bool \<Rightarrow> 'db storage \<Rightarrow> (error + 'id) \<times> fact \<times> 'db storage" where
  "add_fact db_add_fact now fct temporary_activity st =
     (if \<not> truthy (activity fct) then (Inl (AssertionError ''missing activity''), fct, st)
      else
        let (fact1, st1) =
              (if start_time fct = None
               then (fct\<lparr>start_time := Some now\<rparr>,
                     st\<lparr>slog := slog st @
                        [(Info, ''Adding fact without any start_time is deprecated'')]\<rparr>)
               else (fct, st));
            (new_id, db') = db_add_fact fact1 (db st1)
        in (new_id, fact1, st1\<lparr>db := db'\<rparr>))"

text \<open>
  \<open>dict(pairs)\<close>: a key keeps the place of its first occurrence and the value of its
  last one.
\<close>

definition py_dict :: "(string \<times> pyval) list \<Rightarrow> (string \<times> pyval) list" where
  "py_dict kvs = foldl (\<lambda>d (k, v). AList.update k v d) [] kvs"

text \<open>\<open>_to_dict(columns, result_list)\<close>\<close>

definition to_dict :: "string list \<Rightarrow> pyval list list \<Rightarrow> (string \<times> pyval) list list" where
  "to_dict columns result_list = map (\<lambda>row. py_dict (zip columns row)) result_list"

text \<open>A row of the store's activity listing, read by column name.\<close>

record activity_row =
  row_id :: pyval
  row_name :: pyval
  row_category_id :: pyval
  row_category :: pyval

text \<open>
  \<open>get_category_activities(category_id=None)\<close>; \<open>db_get_category_activities\<close> is the
  store's query.
\<close>

definition get_category_activities ::
  "(pyval \<Rightarrow> 'db \<Rightarrow> activity_row list) \<Rightarrow> pyval \<Rightarrow> 'db storage \<Rightarrow> (string \<times> pyval) list list" where
  "get_category_activities db_get_category_activities category_id st =
     (let category_id = py_or category_id (PInt (- 1)) in
      to_dict [''id'', ''name'', ''category_id'', ''category'']
        (map (\<lambda>a. [row_id a, row_name a, row_category_id a, py_or (row_category a) (PStr '''')])
           (db_get_category_activities category_id (db st))))"

subsection \<open>The record store behind the facade\<close>

text \<open>
  Modelled from the spec: the record store (\<open>hamster.storage.db\<close>) is not among the source
  files. The spec gives an activity an identifier, a name and a nullable category
  reference, a category an identifier and a name, and has \<open>getCategoryActivities\<close> return
  the activities of the category asked for, the uncategorized ones when it is asked with
  the sentinel. The sentinel is \<open>-1\<close>, the value the facade passes for "no category"
  (also the default of its \<open>add_activity\<close>).
\<close>

record activity =
  act_id :: int
  act_name :: string
  act_category :: "int option"

record store =
  activities :: "activity list"
  categories :: "(int \<times> string) list"

definition in_category :: "pyval \<Rightarrow> activity \<Rightarrow> bool" where
  "in_category category_id a =
     (case category_id of
        PInt c \<Rightarrow> (if c = - 1 then act_category a = None else act_category a = Some c)
      | _ \<Rightarrow> False)"

definition row_of :: "store \<Rightarrow> activity \<Rightarrow> activity_row" where
  "row_of d a =
     \<lparr>row_id = PInt (act_id a), row_name = PStr (act_name a),
      row_category_id = (case act_category a of None \<Rightarrow> PNone | Some c \<Rightarrow> PInt c),
      row_category =
        (case act_category a of
           None \<Rightarrow> PNone
         | Some c \<Rightarrow> (case map_of (categories d) c of None \<Rightarrow> PNone | Some n \<Rightarrow> PStr n))\<rparr>"

definition store_get_category_activities :: "pyval \<Rightarrow> store \<Rightarrow> activity_row list" where
  "store_get_category_activities category_id d =
     map (row_of d) (filter (in_category category_id) (activities d))"

subsection \<open>Example inputs\<close>

text \<open>
  A small record store for concrete evaluations: it keeps the facts added in a list,
  numbers them from 1, and its check rejects a fact that ends before it starts.
\<close>

definition example_add_fact :: "fact \<Rightarrow> fact list \<Rightarrow> (error + int) \<times> fact list" where
  "example_add_fact f fs = (Inr (int (length fs) + 1), fs @ [f])"

definition example_check_fact :: "fact \<Rightarrow> int option \<Rightarrow> fact list \<Rightarrow> (error + unit) \<times> fact list" where
  "example_check_fact f day fs =
     (case (start_time f, end_time f) of
        (Some a, Some b) \<Rightarrow> if b < a then (Inl (FactError ''end before start''), fs) else (Inr (), fs)
      | _ \<Rightarrow> (Inr (), fs))"

definition example_fact :: fact where
  "example_fact =
     \<lparr>activity = PStr ''reading'', start_time = None, end_time = None,
      description = PNone, tags = []\<rparr>"

definition example_storage :: "fact list storage" where
  "example_storage = \<lparr>db = [], slog = []\<rparr>"

definition example_store :: store where
  "example_store =
     \<lparr>activities =
        [\<lparr>act_id = 1, act_name = ''email'', act_category = Some 2\<rparr>,
         \<lparr>act_id = 2, act_name = ''nap'', act_category = None\<rparr>,
         \<lparr>act_id = 3, act_name = ''walk'', act_category = None\<rparr>],
      categories = [(2, ''work'')]\<rparr>"

text \<open>A store object constructed over a settings file that holds the defaults.\<close>

definition example_conf :: conf where
  "example_conf = new_conf (Plist (map_of defaults)) Map.empty"

text \<open>The same store after \<open>set("day-start-minutes", 270)\<close>, written to the file.\<close>

definition example_conf_270 :: conf where
  "example_conf_270 = snd (set_conf ''day-start-minutes'' (PInt 270) WriteOk example_conf)"

section \<open>Auxiliary facts\<close>

lemma merge_defaults_lookup:
  "merge_defaults ds st k = (case st k of Some v \<Rightarrow> Some v | None \<Rightarrow> map_of ds k)"
  by (induction ds st rule: merge_defaults.induct) (auto split: option.splits)

lemma log_msg_fields [simp]:
  "settings (log_msg l m s) = settings s"
  "handlers (log_msg l m s) = handlers s"
  "plist (log_msg l m s) = plist s"
  "props (log_msg l m s) = props s"
  "emitted (log_msg l m s) = emitted s"
  "logged (log_msg l m s) = logged s @ [(l, m)]"
  by (simp_all add: log_msg_def)

lemma new_conf_fields [simp]:
  "settings (new_conf f ps) = fst (load_settings f)"
  "handlers (new_conf f ps) = []"
  "plist (new_conf f ps) = f"
  "props (new_conf f ps) = ps"
  "emitted (new_conf f ps) = []"
  by (simp_all add: new_conf_def split: prod.splits)

lemma map_of_defaults_day: "map_of defaults ''day-start-minutes'' = Some (PInt 330)"
  by (simp add: defaults_def)

lemma map_of_defaults_folder: "map_of defaults ''last-report-folder'' = Some (PStr '''')"
  by (simp add: defaults_def)

lemma fst_get:
  "fst (get key dflt s) =
     (if dict_get (settings s) key = PNone
      then (if dflt \<noteq> PNone then dflt else dict_get (map_of defaults) key)
      else dict_get (settings s) key)"
  by (simp add: get_def Let_def)

lemma snd_get_fields [simp]:
  "settings (snd (get key dflt s)) = settings s"
  "handlers (snd (get key dflt s)) = handlers s"
  "plist (snd (get key dflt s)) = plist s"
  "props (snd (get key dflt s)) = props s"
  "emitted (snd (get key dflt s)) = emitted s"
  by (simp_all add: get_def Let_def)

lemma save_settings_fields [simp]:
  "settings (save_settings w s) = settings s"
  "handlers (save_settings w s) = handlers s"
  "props (save_settings w s) = props s"
  "emitted (save_settings w s) = emitted s"
  by (cases w; simp)+

lemma save_settings_plist:
  "plist (save_settings w s) =
     (case w of WriteOk \<Rightarrow> Plist (settings s) | OpenFails \<Rightarrow> plist s | DumpFails \<Rightarrow> Unreadable)"
  by (cases w) simp_all

lemma save_settings_logged:
  "logged (save_settings w s) =
     logged s @ [if w = WriteOk then (Debug, ''Saved settings to plist: {}'')
                 else (Error, ''Failed to save plist: {}'')]"
  by (cases w) simp_all

lemma set_conf_result: "fst (set_conf key val w s) = True"
  by (simp add: set_conf_def Let_def)

lemma set_conf_settings: "settings (snd (set_conf key val w s)) = (settings s)(key \<mapsto> val)"
  by (simp add: set_conf_def emit_changed_def Let_def split: option.splits)

lemma set_conf_handlers: "handlers (snd (set_conf key val w s)) = handlers s"
  by (simp add: set_conf_def emit_changed_def Let_def split: option.splits)

lemma set_conf_emitted: "emitted (snd (set_conf key val w s)) = emitted s @ [(key, val)]"
  by (simp add: set_conf_def emit_changed_def Let_def split: option.splits)

lemma set_conf_props:
  "props (snd (set_conf key val w s)) =
     foldl (\<lambda>ps h. on_changed h key val ps) (props s) (handlers s)"
  by (simp add: set_conf_def emit_changed_def Let_def split: option.splits)

lemma set_conf_plist:
  "plist (snd (set_conf key val w s)) =
     (case w of WriteOk \<Rightarrow> Plist ((settings s)(key \<mapsto> val)) | OpenFails \<Rightarrow> plist s
              | DumpFails \<Rightarrow> Unreadable)"
  by (simp add: set_conf_def emit_changed_def Let_def save_settings_plist
      split: option.splits io.splits)

lemma set_conf_logged:
  "logged (snd (set_conf key val w s)) =
     logged s @ [(Debug, ''Setting {} -> {}'')]
       @ (if type_mismatch key val
          then [(Warning, ''Type mismatch for key {}: expected {}, got {}'')] else [])
       @ [if w = WriteOk then (Debug, ''Saved settings to plist: {}'')
          else (Error, ''Failed to save plist: {}'')]"
  by (simp add: set_conf_def emit_changed_def Let_def save_settings_logged type_mismatch_def
      split: option.splits)

lemma get_after_set:
  "fst (get key PNone (snd (set_conf key val w s))) =
     (if val = PNone then dict_get (map_of defaults) key else val)"
  by (simp add: fst_get set_conf_settings dict_get_def)

lemma foldl_on_changed:
  "foldl (\<lambda>ps h. on_changed h k v ps) ps hs (obj, prop) =
     (if OnChanged k obj prop \<in> set hs then Some v else ps (obj, prop))"
proof (induction hs arbitrary: ps)
  case Nil
  then show ?case by simp
next
  case (Cons h hs)
  obtain k' o' p' where h: "h = OnChanged k' o' p'" by (cases h)
  show ?case using Cons.IH by (auto simp: h)
qed

lemma bind_settings: "settings (bind key obj prop s) = settings s"
  by (simp add: bind_def Let_def split: prod.splits)
     (metis snd_conv snd_get_fields(1) log_msg_fields(1))

lemma bind_handlers: "handlers (bind key obj prop s) = handlers s @ [OnChanged key obj prop]"
  by (simp add: bind_def Let_def split: prod.splits)
     (metis snd_conv snd_get_fields(2) log_msg_fields(2))

lemma bind_props:
  "props (bind key obj prop s) = (props s)((obj, prop) \<mapsto> fst (get key PNone s))"
proof -
  obtain v s1 where g: "get key PNone (log_msg Debug ''Binding {} to {}.{}'' s) = (v, s1)"
    by (cases "get key PNone (log_msg Debug ''Binding {} to {}.{}'' s)")
  have "props s1 = props s"
    using snd_get_fields(4) [of key PNone "log_msg Debug ''Binding {} to {}.{}'' s"] g by simp
  moreover have "v = fst (get key PNone s)"
    using g fst_get [of key PNone "log_msg Debug ''Binding {} to {}.{}'' s"]
    by (simp add: fst_get)
  ultimately show ?thesis by (simp add: bind_def g)
qed

lemma run_call_handlers: "set (handlers s) \<subseteq> set (handlers (run_call s c))"
  by (cases c) (auto simp: set_conf_handlers bind_handlers)

lemma run_calls_handlers: "h \<in> set (handlers s) \<Longrightarrow> h \<in> set (handlers (run_calls cs s))"
  unfolding run_calls_def
proof (induction cs arbitrary: s)
  case Nil
  then show ?case by simp
next
  case (Cons c cs)
  then show ?case using run_call_handlers [of s c] by auto
qed

lemma day_start_value:
  "fst (day_start s) =
     (case as_int (fst (get ''day-start-minutes'' PNone s)) of
        None \<Rightarrow> Inl TypeError
      | Some n \<Rightarrow> time_ctor (n div 60) (n mod 60))"
  by (simp add: day_start_def Let_def split: prod.splits option.splits)

lemma py_dict_four:
  "py_dict [(''id'', a), (''name'', b), (''category_id'', c), (''category'', d)] =
     [(''id'', a), (''name'', b), (''category_id'', c), (''category'', d)]"
  by (simp add: py_dict_def)

section \<open>The storage facade: claims\<close>

text \<open>
  C1. \<open>add_fact\<close>: when \<open>fact.activity\<close> is unset (\<open>None\<close> or empty) the call fails
  at once with the precondition error and nothing is persisted: the facade and its store
  are as before and the store's routine is not reached. Otherwise, when
  \<open>fact.start_time\<close> is unset, it is set to the current time and the deprecation is
  logged before the store is called, so the fact the store persists starts "now"; in
  either case the call returns what the store's \<open>add_fact\<close> returns, the new
  identifier on success.
\<close>

theorem add_fact_contract:
  "(\<not> truthy (activity f) \<longrightarrow>
      add_fact db_add now f tmp st = (Inl (AssertionError ''missing activity''), f, st))
   \<and> (truthy (activity f) \<and> start_time f = None \<longrightarrow>
      start_time (f\<lparr>start_time := Some now\<rparr>) = Some now \<and>
      add_fact db_add now f tmp st =
        (fst (db_add (f\<lparr>start_time := Some now\<rparr>) (db st)),
         f\<lparr>start_time := Some now\<rparr>,
         st\<lparr>db := snd (db_add (f\<lparr>start_time := Some now\<rparr>) (db st)),
            slog := slog st @ [(Info, ''Adding fact without any start_time is deprecated'')]\<rparr>))
   \<and> (truthy (activity f) \<and> start_time f \<noteq> None \<longrightarrow>
      add_fact db_add now f tmp st =
        (fst (db_add f (db st)), f, st\<lparr>db := snd (db_add f (db st))\<rparr>))"
  by (simp add: add_fact_def Let_def split: prod.splits)

theorem add_fact_contract_witness:
  "add_fact example_add_fact 1000 (example_fact\<lparr>activity := PStr ''''\<rparr>) False example_storage =
      (Inl (AssertionError ''missing activity''), example_fact\<lparr>activity := PStr ''''\<rparr>,
       example_storage)
   \<and> add_fact example_add_fact 1000 example_fact False example_storage =
      (Inr 1, example_fact\<lparr>start_time := Some 1000\<rparr>,
       \<lparr>db = [example_fact\<lparr>start_time := Some 1000\<rparr>],
        slog = [(Info, ''Adding fact without any start_time is deprecated'')]\<rparr>)
   \<and> add_fact example_add_fact 1000 (example_fact\<lparr>start_time := Some 7\<rparr>) False example_storage =
      (Inr 1, example_fact\<lparr>start_time := Some 7\<rparr>,
       \<lparr>db = [example_fact\<lparr>start_time := Some 7\<rparr>], slog = []\<rparr>)"
  using add_fact_contract [of "example_fact\<lparr>activity := PStr ''''\<rparr>" example_add_fact 1000 False example_storage]
    add_fact_contract [of example_fact example_add_fact 1000 False example_storage]
    add_fact_contract [of "example_fact\<lparr>start_time := Some 7\<rparr>" example_add_fact 1000 False example_storage]
  by (simp add: example_fact_def example_add_fact_def example_storage_def)

text \<open>
  C2, as the code has it. \<open>check_fact\<close> raises the validation error with the reason
  "Missing start time" (capital M) when \<open>fact.start_time\<close> is absent, without
  calling the store. Otherwise it calls the store's check: an exception of the store leaves
  \<open>check_fact\<close> as it is, same class and same reason, and when the store's check
  returns, \<open>check_fact\<close> returns \<open>(True, "")\<close>.
\<close>

theorem check_fact_contract:
  "(start_time f = None \<longrightarrow>
      check_fact db_check f day st = (Inl (FactError ''Missing start time''), st))
   \<and> (start_time f \<noteq> None \<longrightarrow>
        (\<forall>e. fst (db_check f day (db st)) = Inl e \<longrightarrow>
             fst (check_fact db_check f day st) = Inl e)
      \<and> (\<forall>u. fst (db_check f day (db st)) = Inr u \<longrightarrow>
             fst (check_fact db_check f day st) = Inr (True, ''''))
      \<and> db (snd (check_fact db_check f day st)) = snd (db_check f day (db st)))"
  by (auto simp: check_fact_def split: prod.splits sum.splits error.splits)

theorem check_fact_contract_witness:
  "check_fact example_check_fact example_fact None example_storage =
      (Inl (FactError ''Missing start time''), example_storage)
   \<and> fst (check_fact example_check_fact
            (example_fact\<lparr>start_time := Some 9, end_time := Some 5\<rparr>) None example_storage) =
      Inl (FactError ''end before start'')
   \<and> fst (check_fact example_check_fact
            (example_fact\<lparr>start_time := Some 9, end_time := Some 12\<rparr>) None example_storage) =
      Inr (True, '''')"
  using check_fact_contract [of example_fact example_check_fact None example_storage]
    check_fact_contract [of "example_fact\<lparr>start_time := Some 9, end_time := Some 5\<rparr>"
      example_check_fact None example_storage]
    check_fact_contract [of "example_fact\<lparr>start_time := Some 9, end_time := Some 12\<rparr>"
      example_check_fact None example_storage]
  by (simp add: example_fact_def example_check_fact_def example_storage_def)

text \<open>
  The reason that C2 names, "missing start time", is not the one raised: the two strings
  differ in their first letter.
\<close>

theorem check_fact_reason_counterexample:
  "fst (check_fact example_check_fact example_fact None example_storage) \<noteq>
     Inl (FactError ''missing start time'')"
  by (simp add: check_fact_def example_fact_def)

text \<open>
  C8. Called without a category, \<open>get_category_activities\<close> asks the store with the
  sentinel \<open>-1\<close> and returns exactly the activities whose category is unset, in the
  store's order, each as a record with the fields \<open>id\<close>, \<open>name\<close>, \<open>category_id\<close>,
  \<open>category\<close> in this order (the category name given as the empty string).
\<close>

theorem get_category_activities_uncategorized:
  "get_category_activities store_get_category_activities PNone st =
     map (\<lambda>a. [(''id'', PInt (act_id a)), (''name'', PStr (act_name a)),
               (''category_id'', PNone), (''category'', PStr '''')])
       (filter (\<lambda>a. act_category a = None) (activities (db st)))"
proof -
  have sel: "in_category (PInt (- 1)) = (\<lambda>a. act_category a = None)"
    by (rule ext) (simp add: in_category_def)
  have row: "act_category a = None \<Longrightarrow>
      py_dict [(''id'', row_id (row_of d a)), (''name'', row_name (row_of d a)),
               (''category_id'', row_category_id (row_of d a)),
               (''category'', py_or (row_category (row_of d a)) (PStr ''''))] =
      [(''id'', PInt (act_id a)), (''name'', PStr (act_name a)),
       (''category_id'', PNone), (''category'', PStr '''')]" for a d
    by (simp add: py_dict_four row_of_def py_or_def)
  show ?thesis
    by (simp add: get_category_activities_def to_dict_def store_get_category_activities_def
        py_or_def [of PNone] sel row cong: map_cong)
qed

theorem get_category_activities_uncategorized_witness:
  "get_category_activities store_get_category_activities PNone \<lparr>db = example_store, slog = []\<rparr> =
     [[(''id'', PInt 2), (''name'', PStr ''nap''), (''category_id'', PNone), (''category'', PStr '''')],
      [(''id'', PInt 3), (''name'', PStr ''walk''), (''category_id'', PNone), (''category'', PStr '''')]]"
  using get_category_activities_uncategorized [of "\<lparr>db = example_store, slog = []\<rparr>"]
  by (simp add: example_store_def)

text \<open>
  C9. \<open>add_fact\<close> changes its argument in place. A call that returns got past its
  assertion; whenever it gets past the assertion, a fact that came without a start time
  leaves the call with \<open>start_time\<close> set to the current time (also when the store then
  raises), and a fact that came with a start time leaves it unchanged. A call stopped by
  the assertion leaves the fact unchanged.
\<close>

theorem add_fact_argument:
  "(fst (add_fact db_add now f tmp st) = Inr new_id \<longrightarrow> truthy (activity f))
   \<and> (truthy (activity f) \<longrightarrow>
        (start_time f = None \<longrightarrow>
           fst (snd (add_fact db_add now f tmp st)) = f\<lparr>start_time := Some now\<rparr>)
      \<and> (start_time f \<noteq> None \<longrightarrow> fst (snd (add_fact db_add now f tmp st)) = f))
   \<and> (\<not> truthy (activity f) \<longrightarrow> fst (snd (add_fact db_add now f tmp st)) = f)"
  by (simp add: add_fact_def Let_def split: prod.splits)

theorem add_fact_argument_witness:
  "fst (add_fact example_add_fact 1000 example_fact False example_storage) = Inr 1
   \<and> start_time (fst (snd (add_fact example_add_fact 1000 example_fact False example_storage))) =
       Some 1000
   \<and> fst (snd (add_fact example_add_fact 1000 (example_fact\<lparr>start_time := Some 7\<rparr>) False
       example_storage)) = example_fact\<lparr>start_time := Some 7\<rparr>
   \<and> fst (snd (add_fact example_add_fact 1000 (example_fact\<lparr>activity := PNone\<rparr>) False
       example_storage)) = example_fact\<lparr>activity := PNone\<rparr>"
proof -
  have r: "fst (add_fact example_add_fact 1000 example_fact False example_storage) = Inr 1"
    by (simp add: add_fact_def example_fact_def example_add_fact_def example_storage_def)
  show ?thesis
    using r add_fact_argument [of example_add_fact 1000 example_fact False example_storage 1]
      add_fact_argument [of example_add_fact 1000 "example_fact\<lparr>start_time := Some 7\<rparr>" False
        example_storage 1]
      add_fact_argument [of example_add_fact 1000 "example_fact\<lparr>activity := PNone\<rparr>" False
        example_storage 1]
    by (simp add: example_fact_def)
qed

section \<open>The configuration store: claims\<close>

text \<open>
  C3, as the code has it. For every key and value, \<open>set\<close> never rejects: it returns
  \<open>True\<close>, the value is stored in the settings map, \<open>changed(key, value)\<close> is
  published, and a type mismatch with the default only adds a warning to the log. The file
  holds the entire map afterwards when the write succeeds. Afterwards \<open>get(key)\<close>
  returns the stored value whenever that value is not \<open>None\<close>.
\<close>

theorem set_advisory:
  "fst (set_conf key val w s) = True
   \<and> settings (snd (set_conf key val w s)) = (settings s)(key \<mapsto> val)
   \<and> emitted (snd (set_conf key val w s)) = emitted s @ [(key, val)]
   \<and> (type_mismatch key val \<longrightarrow>
        (Warning, ''Type mismatch for key {}: expected {}, got {}'')
          \<in> set (logged (snd (set_conf key val w s))))
   \<and> (w = WriteOk \<longrightarrow>
        plist (snd (set_conf key val w s)) = Plist (settings (snd (set_conf key val w s))))
   \<and> (val \<noteq> PNone \<longrightarrow> fst (get key PNone (snd (set_conf key val w s))) = val)"
  by (simp add: set_conf_result set_conf_settings set_conf_emitted set_conf_logged
      set_conf_plist get_after_set)

theorem set_advisory_witness:
  "type_mismatch ''day-start-minutes'' (PStr ''late'')
   \<and> fst (set_conf ''day-start-minutes'' (PStr ''late'') WriteOk example_conf) = True
   \<and> settings (snd (set_conf ''day-start-minutes'' (PStr ''late'') WriteOk example_conf))
        ''day-start-minutes'' = Some (PStr ''late'')
   \<and> plist (snd (set_conf ''day-start-minutes'' (PStr ''late'') WriteOk example_conf)) =
        Plist ((map_of defaults)(''day-start-minutes'' \<mapsto> PStr ''late''))
   \<and> (Warning, ''Type mismatch for key {}: expected {}, got {}'')
        \<in> set (logged (snd (set_conf ''day-start-minutes'' (PStr ''late'') WriteOk example_conf)))
   \<and> fst (get ''day-start-minutes'' PNone
        (snd (set_conf ''day-start-minutes'' (PStr ''late'') WriteOk example_conf))) = PStr ''late''"
proof -
  have m: "type_mismatch ''day-start-minutes'' (PStr ''late'')"
    by (simp add: type_mismatch_def defaults_def isinstance_def)
  have st: "settings example_conf = map_of defaults"
    by (rule ext) (simp add: example_conf_def merge_defaults_lookup split: option.splits)
  show ?thesis
    using m set_advisory [of "''day-start-minutes''" "PStr ''late''" WriteOk example_conf]
    by (simp add: st)
qed

text \<open>
  C3 as stated fails for the value \<open>None\<close>: after \<open>set("day-start-minutes", None)\<close>
  (a value \<open>plistlib.dump\<close> cannot write, so the write fails) the file does not hold
  the map, and \<open>get("day-start-minutes")\<close> returns 330, not the stored \<open>None\<close>.
\<close>

theorem set_then_get_counterexample:
  "settings (snd (set_conf ''day-start-minutes'' PNone DumpFails example_conf))
      ''day-start-minutes'' = Some PNone
   \<and> fst (get ''day-start-minutes'' PNone
        (snd (set_conf ''day-start-minutes'' PNone DumpFails example_conf))) = PInt 330
   \<and> fst (get ''day-start-minutes'' PNone
        (snd (set_conf ''day-start-minutes'' PNone DumpFails example_conf))) \<noteq> PNone
   \<and> plist (snd (set_conf ''day-start-minutes'' PNone DumpFails example_conf)) \<noteq>
        Plist (settings (snd (set_conf ''day-start-minutes'' PNone DumpFails example_conf)))"
  by (simp add: set_conf_settings set_conf_plist get_after_set dict_get_def map_of_defaults_day)

text \<open>
  C4. On construction, a readable settings file gives a map in which every key of the file
  keeps the file's value and every default key absent from the file has its default (and
  no other key is there); a missing or unreadable file gives exactly the defaults. A store
  constructed with no file returns 330 for \<open>get("day-start-minutes")\<close> and the empty
  string for \<open>get("last-report-folder")\<close>.
\<close>

theorem load_merges_defaults:
  "(\<exists>s. init_conf True (Plist m) ps = Inr s \<and>
        (\<forall>k. settings s k = (case m k of Some v \<Rightarrow> Some v | None \<Rightarrow> map_of defaults k)))
   \<and> (\<exists>s. init_conf True Unreadable ps = Inr s \<and> settings s = map_of defaults)
   \<and> (\<exists>s. init_conf True Missing ps = Inr s \<and> settings s = map_of defaults
          \<and> fst (get ''day-start-minutes'' PNone s) = PInt 330
          \<and> fst (get ''last-report-folder'' PNone s) = PStr '''')"
  by (simp add: init_conf_def merge_defaults_lookup fst_get dict_get_def
      map_of_defaults_day map_of_defaults_folder)

theorem load_merges_defaults_witness:
  "settings (new_conf (Plist [''day-start-minutes'' \<mapsto> PInt 270, ''theme'' \<mapsto> PStr ''dark'']) Map.empty)
      ''day-start-minutes'' = Some (PInt 270)
   \<and> settings (new_conf (Plist [''day-start-minutes'' \<mapsto> PInt 270, ''theme'' \<mapsto> PStr ''dark'']) Map.empty)
      ''last-report-folder'' = Some (PStr '''')
   \<and> settings (new_conf (Plist [''day-start-minutes'' \<mapsto> PInt 270, ''theme'' \<mapsto> PStr ''dark'']) Map.empty)
      ''theme'' = Some (PStr ''dark'')
   \<and> fst (get ''day-start-minutes'' PNone (new_conf Missing Map.empty)) = PInt 330"
  using load_merges_defaults [of "[''day-start-minutes'' \<mapsto> PInt 270, ''theme'' \<mapsto> PStr ''dark'']" Map.empty]
  by (simp add: init_conf_def map_of_defaults_folder)

text \<open>
  C5, as the code has it. \<open>bind(key, obj, prop)\<close> at once pushes the current value of
  the key into the target property: the value stored under the key, which is also what
  \<open>get(key)\<close> returns. It leaves the settings as they are. After any further calls on
  the store, a \<open>set(k, v)\<close> with \<open>k = key\<close> leaves the target property at \<open>v\<close>.
  With \<open>k \<noteq> key\<close> the handler of this binding does nothing, and the target property
  is as before the call provided no other binding ties \<open>k\<close> to the same property of the
  same object; where one does, the property takes \<open>v\<close>. No \<open>set\<close> reads a target
  back: the settings after it are those of before with \<open>v\<close> stored under \<open>k\<close>.
\<close>

theorem bind_one_way:
  "(settings s key = Some v0 \<and> v0 \<noteq> PNone \<longrightarrow>
      props (bind key obj prop s) (obj, prop) = Some v0)
   \<and> props (bind key obj prop s) (obj, prop) = Some (fst (get key PNone s))
   \<and> settings (bind key obj prop s) = settings s
   \<and> (\<forall>cs k v w.
        (k = key \<longrightarrow>
           props (snd (set_conf k v w (run_calls cs (bind key obj prop s)))) (obj, prop) = Some v)
      \<and> (k \<noteq> key \<longrightarrow> on_changed (OnChanged key obj prop) k v = (\<lambda>ps. ps))
      \<and> (k \<noteq> key \<and> OnChanged k obj prop \<notin> set (handlers (run_calls cs (bind key obj prop s))) \<longrightarrow>
           props (snd (set_conf k v w (run_calls cs (bind key obj prop s)))) (obj, prop) =
           props (run_calls cs (bind key obj prop s)) (obj, prop))
      \<and> (k \<noteq> key \<and> OnChanged k obj prop \<in> set (handlers (run_calls cs (bind key obj prop s))) \<longrightarrow>
           props (snd (set_conf k v w (run_calls cs (bind key obj prop s)))) (obj, prop) = Some v)
      \<and> settings (snd (set_conf k v w (run_calls cs (bind key obj prop s)))) =
           (settings (run_calls cs (bind key obj prop s)))(k \<mapsto> v))"
proof -
  have stored: "settings s key = Some v0 \<Longrightarrow> v0 \<noteq> PNone \<Longrightarrow>
      props (bind key obj prop s) (obj, prop) = Some v0"
    by (simp add: bind_props fst_get dict_get_def)
  have connected: "OnChanged key obj prop \<in> set (handlers (run_calls cs (bind key obj prop s)))"
    for cs
    by (rule run_calls_handlers) (simp add: bind_handlers)
  have idle: "k \<noteq> key \<Longrightarrow> on_changed (OnChanged key obj prop) k v = (\<lambda>ps. ps)" for k v
    by (rule ext) simp
  show ?thesis
    using stored connected idle
    by (simp add: bind_props bind_settings set_conf_props set_conf_settings foldl_on_changed)
qed

theorem bind_one_way_witness:
  "settings example_conf_270 ''day-start-minutes'' = Some (PInt 270)
   \<and> props (bind ''day-start-minutes'' 0 ''minutes'' example_conf_270) (0, ''minutes'') =
      Some (PInt 270)
   \<and> props (snd (set_conf ''day-start-minutes'' (PInt 300) WriteOk
        (run_calls [CallSet ''last-report-folder'' (PStr ''/tmp'') WriteOk]
           (bind ''day-start-minutes'' 0 ''minutes'' example_conf_270)))) (0, ''minutes'') =
      Some (PInt 300)
   \<and> props (snd (set_conf ''last-report-folder'' (PStr ''/tmp'') WriteOk
        (run_calls [] (bind ''day-start-minutes'' 0 ''minutes'' example_conf_270))))
        (0, ''minutes'') = Some (PInt 270)
   \<and> props (snd (set_conf ''last-report-folder'' (PStr ''/tmp'') WriteOk
        (run_calls [CallBind ''last-report-folder'' 0 ''minutes'']
           (bind ''day-start-minutes'' 0 ''minutes'' example_conf_270))))
        (0, ''minutes'') = Some (PStr ''/tmp'')
   \<and> settings (bind ''day-start-minutes'' 0 ''minutes'' example_conf_270) =
      settings example_conf_270"
proof -
  have st: "settings example_conf_270 ''day-start-minutes'' = Some (PInt 270)"
    by (simp add: example_conf_270_def set_conf_settings)
  have hs0: "handlers example_conf_270 = []"
    by (simp add: example_conf_270_def set_conf_handlers example_conf_def)
  have hs: "handlers (run_calls [] (bind ''day-start-minutes'' 0 ''minutes'' example_conf_270)) =
      [OnChanged ''day-start-minutes'' 0 ''minutes'']"
    by (simp add: run_calls_def bind_handlers hs0)
  have hs2: "handlers (run_calls [CallBind ''last-report-folder'' 0 ''minutes'']
        (bind ''day-start-minutes'' 0 ''minutes'' example_conf_270)) =
      [OnChanged ''day-start-minutes'' 0 ''minutes'', OnChanged ''last-report-folder'' 0 ''minutes'']"
    by (simp add: run_calls_def bind_handlers hs0)
  note b = bind_one_way [of example_conf_270 "''day-start-minutes''" "PInt 270" 0 "''minutes''"]
  have pushed: "props (bind ''day-start-minutes'' 0 ''minutes'' example_conf_270) (0, ''minutes'') =
      Some (PInt 270)"
    using b st by simp
  have ps: "props (run_calls [] (bind ''day-start-minutes'' 0 ''minutes'' example_conf_270))
      (0, ''minutes'') = Some (PInt 270)"
    using pushed by (simp add: run_calls_def)
  have one: "props (snd (set_conf ''day-start-minutes'' (PInt 300) WriteOk
        (run_calls [CallSet ''last-report-folder'' (PStr ''/tmp'') WriteOk]
           (bind ''day-start-minutes'' 0 ''minutes'' example_conf_270)))) (0, ''minutes'') =
      Some (PInt 300)"
    using b by blast
  have two: "props (snd (set_conf ''last-report-folder'' (PStr ''/tmp'') WriteOk
        (run_calls [] (bind ''day-start-minutes'' 0 ''minutes'' example_conf_270))))
        (0, ''minutes'') = Some (PInt 270)"
  proof -
    have "''last-report-folder'' \<noteq> ''day-start-minutes'' \<and>
        OnChanged ''last-report-folder'' 0 ''minutes'' \<notin>
          set (handlers (run_calls [] (bind ''day-start-minutes'' 0 ''minutes'' example_conf_270)))"
      by (simp add: hs)
    then show ?thesis using b ps by metis
  qed
  have three: "props (snd (set_conf ''last-report-folder'' (PStr ''/tmp'') WriteOk
        (run_calls [CallBind ''last-report-folder'' 0 ''minutes'']
           (bind ''day-start-minutes'' 0 ''minutes'' example_conf_270))))
        (0, ''minutes'') = Some (PStr ''/tmp'')"
  proof -
    have "''last-report-folder'' \<noteq> ''day-start-minutes'' \<and>
        OnChanged ''last-report-folder'' 0 ''minutes'' \<in>
          set (handlers (run_calls [CallBind ''last-report-folder'' 0 ''minutes'']
            (bind ''day-start-minutes'' 0 ''minutes'' example_conf_270)))"
      by (simp add: hs2)
    then show ?thesis using b by metis
  qed
  have keep: "settings (bind ''day-start-minutes'' 0 ''minutes'' example_conf_270) =
      settings example_conf_270"
    using b by blast
  show ?thesis using st pushed one two three keep by simp
qed

text \<open>
  C5 as stated fails where two bindings share a target: \<open>day-start-minutes\<close> and then
  \<open>last-report-folder\<close> are bound to the same property, which then holds the empty
  string; \<open>set("last-report-folder", "/tmp")\<close> is a notification for a key other than
  \<open>day-start-minutes\<close>, and it changes the property to \<open>"/tmp"\<close>.
\<close>

theorem bind_shared_target_counterexample:
  "''last-report-folder'' \<noteq> ''day-start-minutes''
   \<and> props (run_calls [CallBind ''last-report-folder'' 0 ''minutes'']
        (bind ''day-start-minutes'' 0 ''minutes'' example_conf)) (0, ''minutes'') = Some (PStr '''')
   \<and> props (snd (set_conf ''last-report-folder'' (PStr ''/tmp'') WriteOk
        (run_calls [CallBind ''last-report-folder'' 0 ''minutes'']
           (bind ''day-start-minutes'' 0 ''minutes'' example_conf)))) (0, ''minutes'') =
      Some (PStr ''/tmp'')
   \<and> props (snd (set_conf ''last-report-folder'' (PStr ''/tmp'') WriteOk
        (run_calls [CallBind ''last-report-folder'' 0 ''minutes'']
           (bind ''day-start-minutes'' 0 ''minutes'' example_conf)))) (0, ''minutes'') \<noteq>
      props (run_calls [CallBind ''last-report-folder'' 0 ''minutes'']
        (bind ''day-start-minutes'' 0 ''minutes'' example_conf)) (0, ''minutes'')"
proof -
  have st: "settings example_conf = map_of defaults"
    by (rule ext) (simp add: example_conf_def merge_defaults_lookup split: option.splits)
  have before: "props (run_calls [CallBind ''last-report-folder'' 0 ''minutes'']
        (bind ''day-start-minutes'' 0 ''minutes'' example_conf)) (0, ''minutes'') = Some (PStr '''')"
    by (simp add: run_calls_def bind_props bind_settings fst_get st dict_get_def
        map_of_defaults_folder)
  have after: "props (snd (set_conf ''last-report-folder'' (PStr ''/tmp'') WriteOk
        (run_calls [CallBind ''last-report-folder'' 0 ''minutes'']
           (bind ''day-start-minutes'' 0 ''minutes'' example_conf)))) (0, ''minutes'') =
      Some (PStr ''/tmp'')"
    by (simp add: set_conf_props foldl_on_changed run_calls_def bind_handlers)
  show ?thesis using before after by simp
qed

text \<open>
  C6, as the code has it. When the write of the settings file fails, \<open>set\<close> does not
  raise: it returns \<open>True\<close>, the failure is logged as an error, and \<open>changed\<close> is
  still published. The store goes on with its in-memory settings, which are not taken back
  to an earlier state: they are the map of before the call with the new value stored under
  the key. The file is untouched when it cannot be opened.
\<close>

theorem set_persist_failure:
  assumes "w \<noteq> WriteOk"
  shows "fst (set_conf key val w s) = True
   \<and> last (logged (snd (set_conf key val w s))) = (Error, ''Failed to save plist: {}'')
   \<and> settings (snd (set_conf key val w s)) = (settings s)(key \<mapsto> val)
   \<and> settings (snd (set_conf key val w s)) key = Some val
   \<and> emitted (snd (set_conf key val w s)) = emitted s @ [(key, val)]
   \<and> plist (snd (set_conf key val w s)) = (if w = OpenFails then plist s else Unreadable)"
  using assms
  by (cases w) (simp_all add: set_conf_result set_conf_logged set_conf_settings set_conf_emitted
      set_conf_plist)

theorem set_persist_failure_witness:
  "OpenFails \<noteq> WriteOk
   \<and> fst (set_conf ''day-start-minutes'' (PInt 270) OpenFails example_conf) = True
   \<and> last (logged (snd (set_conf ''day-start-minutes'' (PInt 270) OpenFails example_conf))) =
        (Error, ''Failed to save plist: {}'')
   \<and> settings (snd (set_conf ''day-start-minutes'' (PInt 270) OpenFails example_conf))
        ''day-start-minutes'' = Some (PInt 270)
   \<and> plist (snd (set_conf ''day-start-minutes'' (PInt 270) OpenFails example_conf)) =
        Plist (map_of defaults)"
proof -
  have h: "OpenFails \<noteq> WriteOk" by simp
  show ?thesis
    using set_persist_failure [OF h, of "''day-start-minutes''" "PInt 270" example_conf]
    by (simp add: example_conf_def)
qed

text \<open>
  C6 as stated fails. The store starts with the settings of its file, with
  \<open>day-start-minutes\<close> at 330; \<open>set("day-start-minutes", 270)\<close> cannot open the file.
  The two states known to be good are then the settings of before the call and the
  settings the file still holds, and they are the same map. The in-memory settings after
  the call are neither: they hold 270, a value that was never persisted.
\<close>

theorem set_persist_failure_counterexample:
  "plist example_conf = Plist (settings example_conf)
   \<and> settings example_conf ''day-start-minutes'' = Some (PInt 330)
   \<and> plist (snd (set_conf ''day-start-minutes'' (PInt 270) OpenFails example_conf)) =
        Plist (settings example_conf)
   \<and> settings (snd (set_conf ''day-start-minutes'' (PInt 270) OpenFails example_conf))
        ''day-start-minutes'' = Some (PInt 270)
   \<and> settings (snd (set_conf ''day-start-minutes'' (PInt 270) OpenFails example_conf)) \<noteq>
        settings example_conf
   \<and> plist (snd (set_conf ''day-start-minutes'' (PInt 270) OpenFails example_conf)) \<noteq>
        Plist (settings (snd (set_conf ''day-start-minutes'' (PInt 270) OpenFails example_conf)))"
proof -
  have st: "settings example_conf = map_of defaults"
    by (rule ext) (simp add: example_conf_def merge_defaults_lookup split: option.splits)
  have ne: "(map_of defaults)(''day-start-minutes'' \<mapsto> PInt 270) \<noteq> map_of defaults"
  proof
    assume "(map_of defaults)(''day-start-minutes'' \<mapsto> PInt 270) = map_of defaults"
    then have "((map_of defaults)(''day-start-minutes'' \<mapsto> PInt 270)) ''day-start-minutes'' =
        map_of defaults ''day-start-minutes''" by simp
    then show False by (simp add: map_of_defaults_day)
  qed
  have onfile: "plist example_conf = Plist (map_of defaults)"
    by (simp add: example_conf_def)
  show ?thesis
    using ne ne [symmetric] by (simp add: st onfile set_conf_settings set_conf_plist map_of_defaults_day)
qed

text \<open>
  C7. \<open>day_start\<close> is the time of day built from \<open>(hours, minutes) =
  divmod(get("day-start-minutes"), 60)\<close>: for a stored number of minutes within a day it
  is the time \<open>hours:minutes\<close>. After \<open>set("day-start-minutes", 270)\<close>,
  \<open>get("day-start-minutes")\<close> returns 270 and \<open>day_start\<close> is 04:30.
\<close>

theorem day_start_divmod:
  "(fst (get ''day-start-minutes'' PNone s) = PInt n \<longrightarrow>
      fst (day_start s) = time_ctor (n div 60) (n mod 60) \<and>
      (0 \<le> n \<and> n < 1440 \<longrightarrow> fst (day_start s) = Inr (Time (n div 60) (n mod 60))))
   \<and> fst (get ''day-start-minutes'' PNone (snd (set_conf ''day-start-minutes'' (PInt 270) w s))) = PInt 270
   \<and> fst (day_start (snd (set_conf ''day-start-minutes'' (PInt 270) w s))) = Inr (Time 4 30)"
proof -
  have inside: "0 \<le> n \<Longrightarrow> n < 1440 \<Longrightarrow>
      time_ctor (n div 60) (n mod 60) = Inr (Time (n div 60) (n mod 60))"
    by (simp add: time_ctor_def) presburger
  have g: "fst (get ''day-start-minutes'' PNone
      (snd (set_conf ''day-start-minutes'' (PInt 270) w s))) = PInt 270"
    by (simp add: get_after_set)
  have d: "fst (day_start (snd (set_conf ''day-start-minutes'' (PInt 270) w s))) = Inr (Time 4 30)"
    by (simp add: day_start_value g time_ctor_def)
  show ?thesis using inside g d by (simp add: day_start_value)
qed

theorem day_start_divmod_witness:
  "fst (get ''day-start-minutes'' PNone example_conf) = PInt 330
   \<and> fst (day_start example_conf) = Inr (Time 5 30)
   \<and> fst (day_start (snd (set_conf ''day-start-minutes'' (PInt 270) WriteOk example_conf))) =
        Inr (Time 4 30)"
proof -
  have g: "fst (get ''day-start-minutes'' PNone example_conf) = PInt 330"
    by (simp add: fst_get example_conf_def merge_defaults_lookup dict_get_def map_of_defaults_day)
  show ?thesis
    using g day_start_divmod [of example_conf 330 WriteOk] by (simp add: time_ctor_def)
qed

text \<open>
  C10. \<open>day_start\<close> is partial: for every stored \<open>day-start-minutes\<close> of 1440 or
  more, or negative, it raises the out-of-range error of the time constructor (the hour
  from \<open>divmod\<close> is outside 0..23); and \<open>set\<close> stores such a value like any other.
\<close>

theorem day_start_out_of_range:
  assumes "1440 \<le> n \<or> n < 0"
  shows "(settings s ''day-start-minutes'' = Some (PInt n) \<longrightarrow> fst (day_start s) = Inl ValueError)
     \<and> fst (set_conf ''day-start-minutes'' (PInt n) w s) = True
     \<and> settings (snd (set_conf ''day-start-minutes'' (PInt n) w s)) ''day-start-minutes'' = Some (PInt n)
     \<and> fst (day_start (snd (set_conf ''day-start-minutes'' (PInt n) w s))) = Inl ValueError"
proof -
  have hr: "\<not> (0 \<le> n div 60 \<and> n div 60 \<le> 23)" using assms by presburger
  have v: "time_ctor (n div 60) (n mod 60) = Inl ValueError"
    using hr by (auto simp add: time_ctor_def)
  have a: "settings s ''day-start-minutes'' = Some (PInt n) \<Longrightarrow> fst (day_start s) = Inl ValueError"
    by (simp add: day_start_value fst_get dict_get_def v)
  show ?thesis using a v
    by (simp add: set_conf_result set_conf_settings day_start_value get_after_set)
qed

theorem day_start_out_of_range_witness:
  "((1440::int) \<le> 1440 \<or> (1440::int) < 0)
   \<and> settings (snd (set_conf ''day-start-minutes'' (PInt 1440) WriteOk example_conf))
        ''day-start-minutes'' = Some (PInt 1440)
   \<and> fst (day_start (snd (set_conf ''day-start-minutes'' (PInt 1440) WriteOk example_conf))) =
        Inl ValueError
   \<and> fst (day_start (snd (set_conf ''day-start-minutes'' (PInt (- 1)) WriteOk example_conf))) =
        Inl ValueError"
proof -
  have h1: "(1440::int) \<le> 1440 \<or> (1440::int) < 0" by simp
  have h2: "(1440::int) \<le> - 1 \<or> (- 1::int) < 0" by simp
  show ?thesis
    using day_start_out_of_range [OF h1, of example_conf WriteOk]
      day_start_out_of_range [OF h2, of example_conf WriteOk]
    by simp
qed

end
